theory Spec2Isabelle
  imports Complex_Main "HOL-Library.Word" "HOL-Library.Log_Nat"
begin

chapter \<open>The crash game: seed derivation, curve generator, contract and cash-out handler\<close>

text \<open>
  The development embeds four pieces of the repository:
  \<^item> the curve generator (\<open>deriveSeed\<close>, \<open>getRandom\<close>, \<open>generateCrashGame\<close>), written in
    TypeScript over IEEE-754 doubles and big integers;
  \<^item> the Solidity contract \<open>CrashGame\<close> (\<open>revealServerSeed\<close>, \<open>processCashOuts\<close>);
  \<^item> the server's cash-out handler \<open>handleCashOutRequest\<close>;
  \<^item> the settlement loop of \<open>runGame\<close> that submits the recorded cash-outs in batches.

  Library functions the code calls but does not define are either modelled from their
  published semantics (IEEE-754 arithmetic, \<open>Math.round\<close>, \<open>BigInt\<close>, the byte helpers of
  ethers) or, where no executable definition exists (\<open>keccak256\<close>, \<open>Math.pow\<close>, the calendar
  of \<open>Date\<close>), taken as parameters collected in the record \<open>lib\<close>.
\<close>

section \<open>Errors\<close>

text \<open>
  Exceptions of the TypeScript side. \<open>NumericFault\<close> and \<open>BufferOverrun\<close> are the two
  assertion failures of ethers that the byte helpers can raise; \<open>CallFailed\<close> stands for a
  rejected promise of a chain call (RPC failure or revert).
\<close>

datatype error = RangeError | SyntaxError | NumericFault | BufferOverrun | CallFailed

definition bindE :: "'e + 'a \<Rightarrow> ('a \<Rightarrow> 'e + 'b) \<Rightarrow> 'e + 'b" where
  "bindE m f = (case m of Inl e \<Rightarrow> Inl e | Inr x \<Rightarrow> f x)"

section \<open>IEEE-754 binary64 numbers\<close>

text \<open>
  A JavaScript \<open>number\<close>. A finite double is represented by the rational it denotes; the
  operations round their exact result to the nearest representable value, ties to even
  (\<open>rnd\<close>), overflow to an infinity above the largest finite double and go through the
  subnormal range below \<open>2\<^sup>-\<^sup>1\<^sup>0\<^sup>2\<^sup>2\<close>. The model has one zero: the sign of a zero is
  not represented. In the code under study a zero is never a divisor except for the
  caller-supplied tick interval, so the sign of zero cannot influence the generator
  for any input the theorems below admit.
\<close>

datatype double = Fin rat | PInf | NInf | NaN

text \<open>\<open>ilog2 x\<close> is the binary exponent of a positive rational: \<open>2\<^sup>e \<le> x < 2\<^sup>e\<^sup>+\<^sup>1\<close>.\<close>

definition ilog2 :: "rat \<Rightarrow> int" where
  "ilog2 x = (case quotient_of x of (p, q) \<Rightarrow>
     (let e = int (floorlog 2 (nat p)) - int (floorlog 2 (nat q))
      in if 2 powi e \<le> x then e else e - 1))"

text \<open>Rounding a rational to the nearest integer, ties to the even one.\<close>

definition rhe :: "rat \<Rightarrow> int" where
  "rhe x = (let f = \<lfloor>x\<rfloor>; d = x - of_int f
     in if d < 1 / 2 then f else if 1 / 2 < d then f + 1 else if even f then f else f + 1)"

text \<open>
  The unit in the last place of the binade of \<open>x\<close> (53 significant bits, smallest normal
  exponent \<open>-1022\<close>), the rounded value of a positive rational, and the rounding of any
  rational with its overflow to infinity.
\<close>

definition ulp :: "rat \<Rightarrow> rat" where
  "ulp x = 2 powi (max (ilog2 x) (- 1022) - 52)"

definition rnd_val :: "rat \<Rightarrow> rat" where
  "rnd_val x = of_int (rhe (x / ulp x)) * ulp x"

definition rnd_pos :: "rat \<Rightarrow> double" where
  "rnd_pos x = (let y = rnd_val x in if 2 powi 1024 \<le> y then PInf else Fin y)"

definition fneg :: "double \<Rightarrow> double" where
  "fneg x = (case x of Fin r \<Rightarrow> Fin (- r) | PInf \<Rightarrow> NInf | NInf \<Rightarrow> PInf | NaN \<Rightarrow> NaN)"

definition rnd :: "rat \<Rightarrow> double" where
  "rnd x = (if x = 0 then Fin 0 else if 0 < x then rnd_pos x else fneg (rnd_pos (- x)))"

text \<open>
  The rationals that are doubles: a significand of at most 53 bits times a power of two
  not below the smallest subnormal, of magnitude below \<open>2\<^sup>1\<^sup>0\<^sup>2\<^sup>4\<close>.
\<close>

definition isdouble :: "rat \<Rightarrow> bool" where
  "isdouble y \<longleftrightarrow>
     (\<exists>m j. y = of_int m * 2 powi j \<and> \<bar>m\<bar> \<le> 2 ^ 53 \<and> - 1074 \<le> j) \<and> \<bar>y\<bar> < 2 powi 1024"

text \<open>Arithmetic. The special cases are those of IEEE 754 with a single zero.\<close>

fun fadd :: "double \<Rightarrow> double \<Rightarrow> double" where
  "fadd (Fin a) (Fin b) = rnd (a + b)"
| "fadd NaN y = NaN"
| "fadd x NaN = NaN"
| "fadd PInf NInf = NaN"
| "fadd NInf PInf = NaN"
| "fadd PInf y = PInf"
| "fadd NInf y = NInf"
| "fadd (Fin a) y = y"

definition fsub :: "double \<Rightarrow> double \<Rightarrow> double" where
  "fsub x y = fadd x (fneg y)"

text \<open>The sign of a number that is not NaN, as \<open>-1\<close>, \<open>0\<close> or \<open>1\<close>.\<close>

fun dsgn :: "double \<Rightarrow> int" where
  "dsgn (Fin a) = (if a < 0 then - 1 else if a = 0 then 0 else 1)"
| "dsgn PInf = 1"
| "dsgn NInf = - 1"
| "dsgn NaN = 0"

definition inf_of_sign :: "int \<Rightarrow> double" where
  "inf_of_sign s = (if s = 0 then NaN else if 0 < s then PInf else NInf)"

fun fmul :: "double \<Rightarrow> double \<Rightarrow> double" where
  "fmul (Fin a) (Fin b) = rnd (a * b)"
| "fmul NaN y = NaN"
| "fmul x NaN = NaN"
| "fmul x y = inf_of_sign (dsgn x * dsgn y)"

fun fdiv :: "double \<Rightarrow> double \<Rightarrow> double" where
  "fdiv (Fin a) (Fin b) = (if b = 0 then inf_of_sign (dsgn (Fin a)) else rnd (a / b))"
| "fdiv NaN y = NaN"
| "fdiv x NaN = NaN"
| "fdiv (Fin a) y = Fin 0"
| "fdiv x (Fin b) = inf_of_sign (dsgn x * (if b < 0 then - 1 else 1))"
| "fdiv x y = NaN"

text \<open>Comparisons: every comparison with NaN is false.\<close>

fun flt :: "double \<Rightarrow> double \<Rightarrow> bool" where
  "flt (Fin a) (Fin b) = (a < b)"
| "flt NaN y = False"
| "flt x NaN = False"
| "flt x NInf = False"
| "flt PInf y = False"
| "flt x y = True"

definition feq :: "double \<Rightarrow> double \<Rightarrow> bool" where
  "feq x y = (x \<noteq> NaN \<and> x = y)"

definition fle :: "double \<Rightarrow> double \<Rightarrow> bool" where
  "fle x y = (flt x y \<or> feq x y)"

definition fgt :: "double \<Rightarrow> double \<Rightarrow> bool" where
  "fgt x y = flt y x"

definition fge :: "double \<Rightarrow> double \<Rightarrow> bool" where
  "fge x y = fle y x"

text \<open>\<open>Math.max\<close>, \<open>Math.min\<close>, \<open>Math.round\<close> (half-way cases go up), \<open>Math.floor\<close>, \<open>Math.ceil\<close>.\<close>

definition Math_max :: "double \<Rightarrow> double \<Rightarrow> double" where
  "Math_max x y = (if x = NaN \<or> y = NaN then NaN else if flt x y then y else x)"

definition Math_min :: "double \<Rightarrow> double \<Rightarrow> double" where
  "Math_min x y = (if x = NaN \<or> y = NaN then NaN else if flt y x then y else x)"

definition Math_round :: "double \<Rightarrow> double" where
  "Math_round x = (case x of Fin a \<Rightarrow> Fin (of_int \<lfloor>a + 1 / 2\<rfloor>) | _ \<Rightarrow> x)"

definition Math_floor :: "double \<Rightarrow> double" where
  "Math_floor x = (case x of Fin a \<Rightarrow> Fin (of_int \<lfloor>a\<rfloor>) | _ \<Rightarrow> x)"

definition Math_ceil :: "double \<Rightarrow> double" where
  "Math_ceil x = (case x of Fin a \<Rightarrow> Fin (of_int \<lceil>a\<rceil>) | _ \<Rightarrow> x)"

text \<open>
  \<open>Number(b)\<close> for a big integer \<open>b\<close> rounds it to the nearest double; \<open>BigInt(x)\<close> for a
  number \<open>x\<close> raises \<open>RangeError\<close> unless \<open>x\<close> is an integer.
\<close>

definition Number_of_BigInt :: "int \<Rightarrow> double" where
  "Number_of_BigInt b = rnd (of_int b)"

definition BigInt_of_Number :: "double \<Rightarrow> error + int" where
  "BigInt_of_Number x =
     (case x of Fin a \<Rightarrow> (if of_int \<lfloor>a\<rfloor> = a then Inr \<lfloor>a\<rfloor> else Inl RangeError)
      | _ \<Rightarrow> Inl RangeError)"

section \<open>Strings, big-integer literals and bytes\<close>

text \<open>
  A JavaScript string is modelled by \<open>string\<close>: its code units are restricted to those
  below 256. All strings the protocol exchanges (hexadecimal seeds and addresses, decimal
  numbers) are ASCII.
\<close>

type_synonym byte = "8 word"

definition is_ws :: "char \<Rightarrow> bool" where
  "is_ws c = (of_char c \<in> {9, 10, 11, 12, 13, 32, 160 :: nat})"

definition trim :: "string \<Rightarrow> string" where
  "trim s = rev (dropWhile is_ws (rev (dropWhile is_ws s)))"

definition digit_val :: "nat \<Rightarrow> char \<Rightarrow> nat option" where
  "digit_val base c =
     (let n = of_char c :: nat;
          v = (if 48 \<le> n \<and> n \<le> 57 then n - 48
               else if 97 \<le> n \<and> n \<le> 122 then n - 87
               else if 65 \<le> n \<and> n \<le> 90 then n - 55
               else base)
      in if v < base then Some v else None)"

fun parse_digits :: "nat \<Rightarrow> nat \<Rightarrow> string \<Rightarrow> nat option" where
  "parse_digits base acc [] = Some acc"
| "parse_digits base acc (c # cs) =
     (case digit_val base c of None \<Rightarrow> None
      | Some v \<Rightarrow> parse_digits base (acc * base + v) cs)"

definition parse_nat :: "nat \<Rightarrow> string \<Rightarrow> error + int" where
  "parse_nat base ds =
     (if ds = [] then Inl SyntaxError
      else case parse_digits base 0 ds of None \<Rightarrow> Inl SyntaxError | Some n \<Rightarrow> Inr (int n))"

text \<open>
  \<open>BigInt(s)\<close> for a string: surrounding white space is dropped, the empty string is zero,
  a prefix \<open>0x\<close>, \<open>0o\<close> or \<open>0b\<close> selects the radix, a decimal literal may carry a sign, and
  anything else is a \<open>SyntaxError\<close>.
\<close>

definition BigInt_of_string :: "string \<Rightarrow> error + int" where
  "BigInt_of_string s =
     (let t = trim s in
      if t = [] then Inr 0
      else if take 2 t = ''0x'' \<or> take 2 t = ''0X'' then parse_nat 16 (drop 2 t)
      else if take 2 t = ''0o'' \<or> take 2 t = ''0O'' then parse_nat 8 (drop 2 t)
      else if take 2 t = ''0b'' \<or> take 2 t = ''0B'' then parse_nat 2 (drop 2 t)
      else if take 1 t = ''-'' then bindE (parse_nat 10 (drop 1 t)) (\<lambda>n. Inr (- n))
      else if take 1 t = ''+'' then parse_nat 10 (drop 1 t)
      else parse_nat 10 t)"

text \<open>
  \<open>parseInt(s)\<close> with no radix argument: leading white space and a sign are skipped, a
  prefix \<open>0x\<close> selects radix 16, the longest prefix of digits is read, and the result is
  NaN when that prefix is empty.
\<close>

definition parseInt :: "string \<Rightarrow> double" where
  "parseInt s =
     (let t = dropWhile is_ws s;
          neg = (take 1 t = ''-'');
          t1 = (if take 1 t = ''-'' \<or> take 1 t = ''+'' then drop 1 t else t);
          hex = (take 2 t1 = ''0x'' \<or> take 2 t1 = ''0X'');
          base = (if hex then 16 else 10);
          t2 = (if hex then drop 2 t1 else t1);
          ds = takeWhile (\<lambda>c. digit_val base c \<noteq> None) t2
      in if ds = [] then NaN
         else case parse_digits base 0 ds of None \<Rightarrow> NaN
              | Some n \<Rightarrow> rnd (if neg then - of_nat n else of_nat n))"

text \<open>
  \<open>ethers.toUtf8Bytes\<close> on code units below 256: one byte below \<open>0x80\<close>, two bytes
  otherwise. (The encoder's branches for larger code units cannot be reached from
  \<open>string\<close>.)
\<close>

definition utf8_unit :: "char \<Rightarrow> byte list" where
  "utf8_unit c =
     (let n = of_char c :: nat
      in if n < 128 then [of_nat n] else [of_nat (192 + n div 64), of_nat (128 + n mod 64)])"

definition toUtf8Bytes :: "string \<Rightarrow> byte list" where
  "toUtf8Bytes s = concat (map utf8_unit s)"

text \<open>
  \<open>ethers.toBeHex(v)\<close> without a width: the shortest big-endian byte string of \<open>v\<close>, one
  zero byte for \<open>0\<close>; a negative value is refused. \<open>ethers.zeroPadValue(data, n)\<close> pads on the
  left with zero bytes and refuses data longer than \<open>n\<close>.
\<close>

fun be_bytes :: "nat \<Rightarrow> byte list" where
  "be_bytes n = (if n = 0 then [] else be_bytes (n div 256) @ [of_nat (n mod 256)])"

declare be_bytes.simps [simp del]

definition toBeHex :: "int \<Rightarrow> error + byte list" where
  "toBeHex v = (if v < 0 then Inl NumericFault
                else if v = 0 then Inr [0] else Inr (be_bytes (nat v)))"

definition zeroPadValue :: "byte list \<Rightarrow> nat \<Rightarrow> error + byte list" where
  "zeroPadValue bytes len =
     (if len < length bytes then Inl BufferOverrun
      else Inr (replicate (len - length bytes) 0 @ bytes))"


primrec be_enc :: "nat \<Rightarrow> nat \<Rightarrow> byte list" where
  "be_enc 0 n = []"
| "be_enc (Suc k) n = be_enc k (n div 256) @ [of_nat (n mod 256)]"


section \<open>Seed derivation and indexed randoms\<close>

text \<open>
  The functions the generator takes from its environment: the 256-bit hash (its digest is
  read as a 256-bit word), \<open>Math.pow\<close>, whose result ECMAScript leaves to the
  implementation, and the three calendar fields \<open>new Date(ms).getUTCFullYear()\<close>,
  \<open>getUTCMonth()\<close> and \<open>getUTCDate()\<close> as functions of the millisecond argument.
\<close>

record lib =
  keccak256 :: "byte list \<Rightarrow> 256 word"
  Math_pow :: "double \<Rightarrow> double \<Rightarrow> double"
  getUTCFullYear :: "double \<Rightarrow> double"
  getUTCMonth :: "double \<Rightarrow> double"
  getUTCDate :: "double \<Rightarrow> double"

text \<open>Two digests used as test inputs: all bits clear and all bits set.\<close>

definition zero_digest :: "byte list \<Rightarrow> 256 word" where
  "zero_digest bs = 0"

definition ones_digest :: "byte list \<Rightarrow> 256 word" where
  "ones_digest bs = - 1"

definition pad32 :: "int \<Rightarrow> error + byte list" where
  "pad32 v = bindE (toBeHex v) (\<lambda>h. zeroPadValue h 32)"

definition deriveSeed :: "(byte list \<Rightarrow> 256 word) \<Rightarrow> string \<Rightarrow> double \<Rightarrow> string \<Rightarrow> double \<Rightarrow> error + int" where
  "deriveSeed hash vrfRandom roundId serverSeed chainId =
     bindE (BigInt_of_string vrfRandom) (\<lambda>v.
     bindE (pad32 v) (\<lambda>vrfBytes.
     bindE (BigInt_of_Number roundId) (\<lambda>r.
     bindE (pad32 r) (\<lambda>roundBytes.
     let seedBytes = toUtf8Bytes serverSeed in
     bindE (BigInt_of_Number chainId) (\<lambda>c.
     bindE (pad32 c) (\<lambda>chainBytes.
     let combined = vrfBytes @ roundBytes @ seedBytes @ chainBytes
     in Inr (uint (hash combined))))))))"

definition maxUint256_literal :: string where
  "maxUint256_literal = ''0xffffffffffffffffffffffffffffffffffffffffffffffffffffffffffffffff''"

definition getRandom :: "(byte list \<Rightarrow> 256 word) \<Rightarrow> int \<Rightarrow> double \<Rightarrow> error + double" where
  "getRandom hash derivedSeed i =
     bindE (pad32 derivedSeed) (\<lambda>seedBytes.
     bindE (BigInt_of_Number i) (\<lambda>ib.
     bindE (pad32 ib) (\<lambda>indexBytes.
     let combined = seedBytes @ indexBytes;
         hashBigInt = uint (hash combined)
     in bindE (BigInt_of_string maxUint256_literal) (\<lambda>maxUint256.
        Inr (fdiv (Number_of_BigInt hashBigInt) (Number_of_BigInt maxUint256))))))"


section \<open>The contract\<close>

text \<open>
  The Solidity contract \<open>CrashGame\<close>. A \<open>uint256\<close> is a natural number; Solidity 0.8
  reverts on overflow, which \<open>checked_mul\<close> and \<open>checked_add\<close> write out. A revert
  discards every change of the call, so a reverting call returns only its reason.
  Field names that the TypeScript records above already use carry a prime.
\<close>

datatype revert = Revert string | Panic

type_synonym address = "160 word"

datatype RoundStatus = Created | RandomRequested | RandomReady | SeedRevealed

record Round =
  serverSeedHash :: "256 word"
  serverSeed' :: "byte list"
  sequenceNumber :: "64 word"
  entropyRandom :: nat
  status :: RoundStatus

record Bet =
  amount :: nat
  cashOutMultiplier :: nat
  settled :: bool

record CashOut =
  wallet :: address
  multiplier :: nat

datatype event =
    RoundCreated nat "256 word"
  | ServerSeedRevealed nat "byte list"
  | RoundSettled nat nat

text \<open>
  The storage of the contract, the token balance that \<open>token.balanceOf(address(this))\<close>
  reads, and the events emitted so far.
\<close>

record CrashGame =
  rounds :: "nat \<Rightarrow> Round"
  roundCounter :: nat
  sequenceToRound :: "64 word \<Rightarrow> nat"
  operator :: address
  bets :: "nat \<Rightarrow> address \<Rightarrow> Bet"
  claimablePayouts :: "address \<Rightarrow> nat"
  roundFinalMultipliers :: "nat \<Rightarrow> nat"
  roundSettled :: "nat \<Rightarrow> bool"
  tokenBalance :: nat
  events :: "event list"

definition HOUSE_EDGE_BPS :: nat where "HOUSE_EDGE_BPS = 150"
definition BPS_DENOMINATOR :: nat where "BPS_DENOMINATOR = 10000"
definition MAX_WIN_PERCENTAGE_BPS :: nat where "MAX_WIN_PERCENTAGE_BPS = 7000"

definition checked_mul :: "nat \<Rightarrow> nat \<Rightarrow> revert + nat" where
  "checked_mul a b = (if a * b < 2 ^ 256 then Inr (a * b) else Inl Panic)"

definition checked_add :: "nat \<Rightarrow> nat \<Rightarrow> revert + nat" where
  "checked_add a b = (if a + b < 2 ^ 256 then Inr (a + b) else Inl Panic)"

definition revealServerSeed ::
  "(byte list \<Rightarrow> 256 word) \<Rightarrow> CrashGame \<Rightarrow> nat \<Rightarrow> byte list \<Rightarrow> revert + CrashGame" where
  "revealServerSeed hash c roundId serverSeed =
     (let round = rounds c roundId in
      if status round \<noteq> RandomReady then Inl (Revert ''Randomness not ready'')
      else
        let computedHash = hash serverSeed in
        if computedHash \<noteq> serverSeedHash round then Inl (Revert ''Server seed hash mismatch'')
        else Inr (c\<lparr>rounds := (rounds c)
                        (roundId := round\<lparr>serverSeed' := serverSeed, status := SeedRevealed\<rparr>),
                     events := events c @ [ServerSeedRevealed roundId serverSeed]\<rparr>))"

text \<open>
  The payout of one entry as the comments of the contract state it, written without the
  overflow checks: the amount times the multiplier (18 decimals), less the house edge of 150
  basis points, each division rounding down; and its replacement by 70 percent of the token
  balance when it exceeds that cap.
\<close>

definition computed_payout :: "nat \<Rightarrow> nat \<Rightarrow> nat" where
  "computed_payout a m = (a * m div 10 ^ 18) * (10000 - 150) div 10000"

definition capped_payout :: "nat \<Rightarrow> nat \<Rightarrow> nat \<Rightarrow> nat" where
  "capped_payout a m bal =
     (let cap = bal * 7000 div 10000
      in if computed_payout a m > cap then cap else computed_payout a m)"

text \<open>The body of the loop of \<open>processCashOuts\<close> for one entry, then the loop.\<close>

definition payout_of :: "nat \<Rightarrow> nat \<Rightarrow> nat \<Rightarrow> revert + nat" where
  "payout_of betAmount mult contractBalance =
     bindE (checked_mul betAmount mult) (\<lambda>prod.
     let payoutBeforeFee = prod div 10 ^ 18 in
     bindE (checked_mul payoutBeforeFee (BPS_DENOMINATOR - HOUSE_EDGE_BPS)) (\<lambda>scaled.
     let payout = scaled div BPS_DENOMINATOR in
     bindE (checked_mul contractBalance MAX_WIN_PERCENTAGE_BPS) (\<lambda>capScaled.
     let maxWinPerPlayer = capScaled div BPS_DENOMINATOR
     in Inr (if payout > maxWinPerPlayer then maxWinPerPlayer else payout))))"

fun processCashOuts_loop :: "nat \<Rightarrow> nat \<Rightarrow> CashOut list \<Rightarrow> CrashGame \<Rightarrow> revert + CrashGame" where
  "processCashOuts_loop roundId finalMult [] c = Inr c"
| "processCashOuts_loop roundId finalMult (co # cs) c =
     (let w = wallet co;
          mult = multiplier co;
          bet = bets c roundId w
      in if \<not> amount bet > 0 then Inl (Revert ''No bet found'')
         else if settled bet then Inl (Revert ''Already settled'')
         else if \<not> mult \<ge> 10 ^ 18 then Inl (Revert ''Multiplier too low'')
         else if \<not> mult \<le> finalMult then Inl (Revert ''Multiplier too high'')
         else
           bindE (payout_of (amount bet) mult (tokenBalance c)) (\<lambda>payout.
           bindE (checked_add (claimablePayouts c w) payout) (\<lambda>credited.
           processCashOuts_loop roundId finalMult cs
             (c\<lparr>bets := (bets c)
                   (roundId := (bets c roundId)
                      (w := bet\<lparr>cashOutMultiplier := mult, settled := True\<rparr>)),
                claimablePayouts := (claimablePayouts c)(w := credited)\<rparr>))))"

definition processCashOuts :: "CrashGame \<Rightarrow> address \<Rightarrow> nat \<Rightarrow> CashOut list \<Rightarrow> revert + CrashGame" where
  "processCashOuts c sender roundId cashOuts =
     (if sender \<noteq> operator c then Inl (Revert ''Not operator'')
      else if \<not> roundSettled c roundId then Inl (Revert ''Round not settled'')
      else
        let finalMult = roundFinalMultipliers c roundId in
        if \<not> finalMult > 0 then Inl (Revert ''Invalid round'')
        else processCashOuts_loop roundId finalMult cashOuts c)"

section \<open>The curve generator\<close>

record Time =
  year :: double
  month :: double
  day :: double

record Bar =
  "open" :: double
  high :: double
  low :: double
  close :: double
  time :: Time

record GameUpdate =
  currentValue :: double
  bar :: Bar
  timestamp :: "double option"
  gameState :: double
  nextGameNoMoreBetsAt :: double

text \<open>
  The body of \<open>generateCrashGame\<close> is divided along its own comments. Decimal literals
  denote the nearest double (\<open>rnd\<close>); integers up to \<open>2\<^sup>5\<^sup>3\<close> are exact. The first part
  (lines 499 to 521 of the source) maps the draw \<open>r0\<close> to the raw and the final crash
  multiplier.
\<close>

definition crash_multiplier :: "double \<Rightarrow> double \<times> double" where
  "crash_multiplier r0 =
     (let houseEdge = rnd (15 / 1000);
          p = fadd houseEdge (fmul r0 (fsub (Fin 1) houseEdge));
          rawMultiplier = fdiv (fsub (Fin 1) houseEdge) (fsub (Fin 1) p);
          crashMultiplier = Math_max (Fin 1) (Math_min rawMultiplier (Fin 10000));
          finalMultiplier = fdiv (Math_round (fmul crashMultiplier (Fin 100))) (Fin 100)
      in (rawMultiplier, finalMultiplier))"

text \<open>Lines 547 to 550: the duration in milliseconds and the number of ticks.\<close>

definition total_ticks :: "double \<Rightarrow> double \<Rightarrow> double" where
  "total_ticks r1 tickIntervalMs =
     (let baseDuration = Fin 3000;
          maxDuration = Fin 30000;
          duration = fadd baseDuration (Math_floor (fmul r1 (fsub maxDuration baseDuration)))
      in Math_ceil (fdiv duration tickIntervalMs))"

text \<open>
  One iteration of the loop (lines 567 to 656). The closure variables of the source are
  the parameters; the result is either the crash candle, which ends the loop, or a
  running candle together with the new \<open>previousMultiplier\<close> and \<open>currentPrice\<close>.
\<close>

datatype step_result = Crash GameUpdate | Tick GameUpdate double double

definition tick_step ::
  "lib \<Rightarrow> int \<Rightarrow> double \<Rightarrow> double \<Rightarrow> double \<Rightarrow> double \<Rightarrow> double \<Rightarrow> double \<Rightarrow> double \<Rightarrow> double \<Rightarrow>
   double \<Rightarrow> double \<Rightarrow> double \<Rightarrow> error + step_result" where
  "tick_step L derivedSeed finalMultiplier minPrice trendStrength volatilityBase volatilityDecay
     gameTicks gameStartTime tickIntervalMs i previousMultiplier currentPrice =
     (let maxPrice = finalMultiplier;
          progress = fdiv i gameTicks
      in bindE (getRandom (keccak256 L) derivedSeed (fadd i (Fin 10))) (\<lambda>r1.
         bindE (getRandom (keccak256 L) derivedSeed (fadd i (Fin 20))) (\<lambda>r2.
         let targetPrice = fadd (Fin 1) (fmul (fsub maxPrice (Fin 1)) (Math_pow L progress (rnd (8 / 10))));
             volatility = fmul volatilityBase (Math_pow L (fsub (Fin 1) progress) volatilityDecay);
             directionBias = fmul (fsub targetPrice currentPrice) trendStrength;
             randomMove = fmul (fsub r1 (rnd (5 / 10))) (Fin 2);
             priceChange = fadd directionBias (fmul randomMove volatility);
             currentPrice1 = fmul currentPrice (fadd (Fin 1) priceChange);
             currentPrice2 = Math_max minPrice (Math_min currentPrice1 maxPrice);
             roundedMultiplier = fdiv (Math_round (fmul currentPrice2 (Fin 100))) (Fin 100);
             tickHigh = Math_max previousMultiplier roundedMultiplier;
             tickLow = Math_min previousMultiplier roundedMultiplier;
             tickTime = fadd gameStartTime (fdiv (fmul i tickIntervalMs) (Fin 1000));
             tickDate = fmul tickTime (Fin 1000);
             isCrash = (fge currentPrice2 finalMultiplier \<or> feq i (fsub gameTicks (Fin 1)))
         in if isCrash then
              let crashDate = fmul tickTime (Fin 1000);
                  finalValue = Math_floor (fmul finalMultiplier (Fin 100000))
              in Inr (Crash
                   \<lparr>currentValue = finalValue,
                    bar = \<lparr>open = previousMultiplier,
                           high = Math_max previousMultiplier finalMultiplier,
                           low = Math_min previousMultiplier finalMultiplier,
                           close = finalMultiplier,
                           time = \<lparr>year = getUTCFullYear L crashDate,
                                   month = fadd (getUTCMonth L crashDate) (Fin 1),
                                   day = getUTCDate L crashDate\<rparr>\<rparr>,
                    timestamp = None,
                    gameState = Fin 3,
                    nextGameNoMoreBetsAt = Fin 0\<rparr>)
            else
              let currentValue = Math_floor (fmul roundedMultiplier (Fin 100000))
              in Inr (Tick
                   \<lparr>currentValue = currentValue,
                    bar = \<lparr>open = previousMultiplier,
                           high = tickHigh,
                           low = tickLow,
                           close = roundedMultiplier,
                           time = \<lparr>year = getUTCFullYear L tickDate,
                                   month = fadd (getUTCMonth L tickDate) (Fin 1),
                                   day = getUTCDate L tickDate\<rparr>\<rparr>,
                    timestamp = None,
                    gameState = Fin 2,
                    nextGameNoMoreBetsAt = Fin 0\<rparr>
                   roundedMultiplier currentPrice2))))"

text \<open>
  The \<open>for\<close> loop. Its counter is a double, so the loop need not terminate (a tick count
  of \<open>Infinity\<close>, or one above \<open>2\<^sup>5\<^sup>3\<close> where \<open>i + 1 = i\<close>): not returning is the value
  \<open>None\<close>.
\<close>

partial_function (option) tick_loop ::
  "lib \<Rightarrow> int \<Rightarrow> double \<Rightarrow> double \<Rightarrow> double \<Rightarrow> double \<Rightarrow> double \<Rightarrow> double \<Rightarrow> double \<Rightarrow> double \<Rightarrow>
   double \<Rightarrow> double \<Rightarrow> double \<Rightarrow> GameUpdate list \<Rightarrow> (error + GameUpdate list) option" where
  "tick_loop L derivedSeed finalMultiplier minPrice trendStrength volatilityBase volatilityDecay
     gameTicks gameStartTime tickIntervalMs i previousMultiplier currentPrice ups =
     (if \<not> flt i gameTicks then Some (Inr ups)
      else case tick_step L derivedSeed finalMultiplier minPrice trendStrength volatilityBase
                  volatilityDecay gameTicks gameStartTime tickIntervalMs i previousMultiplier
                  currentPrice of
             Inl e \<Rightarrow> Some (Inl e)
           | Inr (Crash u) \<Rightarrow> Some (Inr (ups @ [u]))
           | Inr (Tick u roundedMultiplier currentPrice2) \<Rightarrow>
               tick_loop L derivedSeed finalMultiplier minPrice trendStrength volatilityBase
                 volatilityDecay gameTicks gameStartTime tickIntervalMs (fadd i (Fin 1))
                 roundedMultiplier currentPrice2 (ups @ [u]))"

record GameInput =
  roundId :: double
  vrfRandom :: string
  serverSeed :: string
  chainId :: double
  startTimestamp :: string
  tickIntervalMs :: double

record CrashGameResult =
  updates :: "GameUpdate list"
  finalMultiplier :: double
  rawMultiplier :: double

text \<open>
  The whole function. Its argument is an object of which only the six fields of
  \<open>GameInput\<close> are read, so the type leaves further fields open. The six draws \<open>r0\<close> to \<open>r5\<close> are taken in the order of the source
  (\<open>r0\<close>, \<open>r1\<close>, then \<open>r2\<close> to \<open>r5\<close>); the console message for a near-instant crash is
  output only and is left out.
\<close>

definition generateCrashGame ::
  "lib \<Rightarrow> 'a GameInput_scheme \<Rightarrow> (error + CrashGameResult) option" where
  "generateCrashGame L input =
     (let rand = getRandom (keccak256 L) in
      case deriveSeed (keccak256 L) (vrfRandom input) (roundId input) (serverSeed input)
             (chainId input) of
        Inl e \<Rightarrow> Some (Inl e)
      | Inr derivedSeed \<Rightarrow>
          let startTime = parseInt (startTimestamp input) in
          (case rand derivedSeed (Fin 0) of Inl e \<Rightarrow> Some (Inl e) | Inr r0 \<Rightarrow>
          (case rand derivedSeed (Fin 1) of Inl e \<Rightarrow> Some (Inl e) | Inr r1 \<Rightarrow>
          let (rawMultiplier, finalMultiplier) = crash_multiplier r0 in
          (case rand derivedSeed (Fin 2) of Inl e \<Rightarrow> Some (Inl e) | Inr r2 \<Rightarrow>
          (case rand derivedSeed (Fin 3) of Inl e \<Rightarrow> Some (Inl e) | Inr r3 \<Rightarrow>
          (case rand derivedSeed (Fin 4) of Inl e \<Rightarrow> Some (Inl e) | Inr r4 \<Rightarrow>
          (case rand derivedSeed (Fin 5) of Inl e \<Rightarrow> Some (Inl e) | Inr r5 \<Rightarrow>
          let minPrice = fadd (rnd (40 / 100)) (fmul r2 (rnd (30 / 100)));
              trendStrength = fadd (rnd (15 / 100)) (fmul r3 (rnd (30 / 100)));
              volatilityBase = fadd (rnd (15 / 1000)) (fmul r4 (rnd (20 / 1000)));
              volatilityDecay = fadd (rnd (5 / 10)) (fmul r5 (rnd (4 / 10)));
              gameTicks = total_ticks r1 (tickIntervalMs input);
              gameStartTime = startTime
          in (case tick_loop L derivedSeed finalMultiplier minPrice trendStrength volatilityBase
                     volatilityDecay gameTicks gameStartTime (tickIntervalMs input)
                     (Fin 0) (Fin 1) (Fin 1) [] of
                None \<Rightarrow> None
              | Some (Inl e) \<Rightarrow> Some (Inl e)
              | Some (Inr ups) \<Rightarrow>
                  Some (Inr \<lparr>updates = ups, finalMultiplier = finalMultiplier,
                             rawMultiplier = rawMultiplier\<rparr>)))))))))"

section \<open>The server: cash-out requests and settlement batches\<close>

datatype round_state = betting | running | ended

record ActiveRound =
  roundId' :: int
  currentMultiplier :: double
  state :: round_state
  finalMultiplier' :: "double option"

record CashOutRecord =
  walletAddress :: string
  multiplier' :: double
  timestamp' :: double
  verified :: bool

text \<open>
  A \<open>cash_out\<close> message after \<open>JSON.parse\<close>: each of the three fields may be absent, and
  the round id may arrive as a number or as a string (the handler converts a string with
  \<open>parseInt\<close>). The multiplier is taken at its protocol type, a number.
\<close>

datatype id_field = IdNum double | IdStr string

record cash_out_message =
  msg_roundId :: "id_field option"
  msg_multiplier :: "double option"
  msg_walletAddress :: "string option"

datatype response =
    Failure string
  | Success id_field double double

text \<open>
  What the handler reads from the chain: the amount of \<open>getBet(roundId, wallet)\<close>, and the
  token balance of the contract. Either read can fail.
\<close>

record chain_view =
  getBet_amount :: "double \<Rightarrow> string \<Rightarrow> error + nat"
  contract_balance :: "error + nat"

definition MAX_WIN_PERCENTAGE :: double where "MAX_WIN_PERCENTAGE = rnd (70 / 100)"
definition HOUSE_EDGE :: double where "HOUSE_EDGE = rnd (15 / 1000)"

definition lower_char :: "char \<Rightarrow> char" where
  "lower_char c =
     (let n = of_char c :: nat
      in if (65 \<le> n \<and> n \<le> 90) \<or> (192 \<le> n \<and> n \<le> 222 \<and> n \<noteq> 215) then char_of (n + 32) else c)"

definition toLowerCase :: "string \<Rightarrow> string" where
  "toLowerCase s = map lower_char s"

text \<open>The three truthiness tests of the first guard, and \<open>Number(formatUnits(v, 18))\<close>.\<close>

definition falsy_num :: "double \<Rightarrow> bool" where
  "falsy_num x = (x = Fin 0 \<or> x = NaN)"

definition falsy_id :: "id_field option \<Rightarrow> bool" where
  "falsy_id r = (case r of None \<Rightarrow> True | Some (IdNum x) \<Rightarrow> falsy_num x | Some (IdStr s) \<Rightarrow> s = [])"

definition from_wei :: "nat \<Rightarrow> double" where
  "from_wei v = rnd (of_nat v / 10 ^ 18)"

text \<open>
  \<open>handleCashOutRequest\<close>: the two server maps \<open>activeRounds\<close> and \<open>activeCashOuts\<close>, the
  chain, the current time \<open>Date.now()\<close> and the message go in; the response sent on the
  socket and the new \<open>activeCashOuts\<close> come out.
\<close>

definition handleCashOutRequest ::
  "(double \<rightharpoonup> ActiveRound) \<Rightarrow> (double \<rightharpoonup> CashOutRecord list) \<Rightarrow> chain_view \<Rightarrow> double \<Rightarrow>
   cash_out_message \<Rightarrow> response \<times> (double \<rightharpoonup> CashOutRecord list)" where
  "handleCashOutRequest activeRounds activeCashOuts chain now message =
     (if falsy_id (msg_roundId message)
         \<or> (case msg_multiplier message of None \<Rightarrow> True | Some m \<Rightarrow> falsy_num m)
         \<or> (case msg_walletAddress message of None \<Rightarrow> True | Some w \<Rightarrow> w = [])
      then (Failure ''Missing required fields'', activeCashOuts)
      else
        let roundId = the (msg_roundId message);
            mult = the (msg_multiplier message);
            walletAddr = the (msg_walletAddress message);
            roundIdNum = (case roundId of IdStr s \<Rightarrow> parseInt s | IdNum x \<Rightarrow> x)
        in case activeRounds roundIdNum of
             None \<Rightarrow> (Failure ''Round not active'', activeCashOuts)
           | Some activeRound \<Rightarrow>
               if state activeRound \<noteq> running then (Failure ''Round not active'', activeCashOuts)
               else if flt mult (Fin 1) \<or> fgt mult (currentMultiplier activeRound)
               then (Failure ''Invalid multiplier'', activeCashOuts)
               else
                 (case getBet_amount chain roundIdNum walletAddr of
                    Inl e \<Rightarrow> (Failure ''Failed to verify bet'', activeCashOuts)
                  | Inr betAmountWei \<Rightarrow>
                      if betAmountWei = 0 then (Failure ''No bet found'', activeCashOuts)
                      else
                        let existingCashOuts =
                              (case activeCashOuts roundIdNum of None \<Rightarrow> [] | Some l \<Rightarrow> l)
                        in if \<exists>co \<in> set existingCashOuts.
                                toLowerCase (walletAddress co) = toLowerCase walletAddr
                           then (Failure ''Already cashed out'', activeCashOuts)
                           else
                             let cashOut = \<lparr>walletAddress = toLowerCase walletAddr,
                                            multiplier' = mult,
                                            timestamp' = fdiv now (Fin 1000),
                                            verified = True\<rparr>;
                                 activeCashOuts' =
                                   activeCashOuts(roundIdNum \<mapsto> existingCashOuts @ [cashOut]);
                                 betAmount = from_wei betAmountWei;
                                 payoutBeforeFee = fmul betAmount mult;
                                 payout = fmul payoutBeforeFee (fsub (Fin 1) HOUSE_EDGE);
                                 payout' =
                                   (case contract_balance chain of
                                      Inl e \<Rightarrow> payout
                                    | Inr contractBalance \<Rightarrow>
                                        let contractBalanceNum = from_wei contractBalance;
                                            maxWinPerPlayer = fmul contractBalanceNum MAX_WIN_PERCENTAGE
                                        in if fgt payout maxWinPerPlayer then maxWinPerPlayer
                                           else payout)
                             in (Success roundId mult payout', activeCashOuts')))"

text \<open>
  The settlement block of \<open>runGame\<close> (lines 609 to 636). \<open>to_wei\<close> is
  \<open>ethers.parseUnits(x.toFixed(18), 18)\<close>: \<open>toFixed\<close> rounds the exact value of the double to
  18 decimals, half-way cases away from zero, and switches to exponent notation, which
  \<open>parseUnits\<close> refuses, from \<open>10\<^sup>2\<^sup>1\<close> on.
\<close>

definition BATCH_SIZE :: nat where "BATCH_SIZE = 15"

definition to_wei :: "double \<Rightarrow> error + int" where
  "to_wei x =
     (case x of
        Fin a \<Rightarrow> (if \<bar>a\<bar> < 10 ^ 21
                  then Inr (sgn \<lfloor>a\<rfloor> * \<lfloor>\<bar>a\<bar> * 10 ^ 18 + 1 / 2\<rfloor>) else Inl SyntaxError)
      | _ \<Rightarrow> Inl SyntaxError)"

record CashOutData =
  cd_wallet :: string
  cd_multiplier :: int

fun cashOutData_of :: "CashOutRecord list \<Rightarrow> error + CashOutData list" where
  "cashOutData_of [] = Inr []"
| "cashOutData_of (co # cs) =
     bindE (to_wei (multiplier' co)) (\<lambda>m.
     bindE (cashOutData_of cs) (\<lambda>rest.
     Inr (\<lparr>cd_wallet = walletAddress co, cd_multiplier = m\<rparr> # rest)))"

text \<open>
  The batch loop. \<open>send\<close> is the awaited call \<open>contract.processCashOuts(roundId, batch)\<close>
  followed by \<open>wait()\<close>, acting on the state \<open>w\<close> of the chain; a failed call throws and
  ends the loop. The result lists every batch handed to \<open>send\<close>, in order, with the outcome.
\<close>

function batch_loop ::
  "('w \<Rightarrow> 'a list \<Rightarrow> error + 'w) \<Rightarrow> 'a list \<Rightarrow> nat \<Rightarrow> 'w \<Rightarrow> 'a list list \<Rightarrow> 'a list list \<times> (error + 'w)" where
  "batch_loop send cashOutData i w sent =
     (if i < length cashOutData then
        let batch = take BATCH_SIZE (drop i cashOutData) in
        case send w batch of
          Inl e \<Rightarrow> (sent @ [batch], Inl e)
        | Inr w' \<Rightarrow> batch_loop send cashOutData (i + BATCH_SIZE) w' (sent @ [batch])
      else (sent, Inr w))"
  by pat_completeness auto
termination
  by (relation "measure (\<lambda>(send, cashOutData, i, w, sent). length cashOutData - i)")
     (auto simp: BATCH_SIZE_def)

declare batch_loop.simps [simp del]

definition settle_cash_outs ::
  "('w \<Rightarrow> CashOutData list \<Rightarrow> error + 'w) \<Rightarrow> 'w \<Rightarrow> CashOutRecord list \<Rightarrow>
   CashOutData list list \<times> (error + 'w)" where
  "settle_cash_outs send w cashOuts =
     (if length cashOuts > 0 then
        case cashOutData_of cashOuts of
          Inl e \<Rightarrow> ([], Inl e)
        | Inr cashOutData \<Rightarrow> batch_loop send cashOutData 0 w []
      else ([], Inr w))"

text \<open>A contract state used as a test input: every round committed to the zero digest and
  waiting for its reveal, no bets, an empty token balance.\<close>

definition sample_contract :: CrashGame where
  "sample_contract =
     \<lparr>rounds = (\<lambda>r. \<lparr>serverSeedHash = 0, serverSeed' = [], sequenceNumber = 0,
                        entropyRandom = 0, status = RandomReady\<rparr>),
      roundCounter = 1,
      sequenceToRound = (\<lambda>s. 0),
      operator = 0,
      bets = (\<lambda>r w. \<lparr>amount = 0, cashOutMultiplier = 0, settled = False\<rparr>),
      claimablePayouts = (\<lambda>w. 0),
      roundFinalMultipliers = (\<lambda>r. 0),
      roundSettled = (\<lambda>r. False),
      tokenBalance = 0,
      events = []\<rparr>"

chapter \<open>Properties of the arithmetic model\<close>

section \<open>Powers of two\<close>

lemma p2_less_iff: "(2::rat) powi a < 2 powi b \<longleftrightarrow> a < b"
proof
  assume l: "(2::rat) powi a < 2 powi b"
  show "a < b"
  proof (rule ccontr)
    assume "\<not> a < b"
    then have "b \<le> a" by simp
    then have "(2::rat) powi b \<le> 2 powi a" by (intro power_int_increasing) auto
    with l show False by simp
  qed
next
  assume "a < b"
  then show "(2::rat) powi a < 2 powi b" by (intro power_int_strict_increasing) auto
qed

lemma p2_le_iff: "(2::rat) powi a \<le> 2 powi b \<longleftrightarrow> a \<le> b"
  using p2_less_iff [of b a] by (simp add: not_less [symmetric])

lemma p2_add: "(2::rat) powi (a + b) = 2 powi a * 2 powi b"
  by (simp add: power_int_add)

lemma p2_diff: "(2::rat) powi (a - b) = 2 powi a / 2 powi b"
  by (simp add: power_int_diff)

lemma p2_of_int: "0 \<le> k \<Longrightarrow> (2::rat) powi k = of_int (2 ^ nat k)"
  by (simp add: power_int_def)

section \<open>ilog2\<close>

lemma ilog2_bounds:
  assumes "0 < x"
  shows "2 powi (ilog2 x) \<le> x" and "x < 2 powi (ilog2 x + 1)"
proof -
  obtain p q where pq: "quotient_of x = (p, q)" by (cases "quotient_of x")
  have q: "0 < q" using pq by (rule quotient_of_denom_pos)
  have x: "x = of_int p / of_int q" using pq by (rule quotient_of_div)
  have p: "0 < p" using assms q x by (simp add: zero_less_divide_iff)
  define a where "a = floorlog 2 (nat p)"
  define b where "b = floorlog 2 (nat q)"
  define A :: rat where "A = 2 ^ a"
  define B :: rat where "B = 2 ^ b"
  define P :: rat where "P = of_int p"
  define Q :: rat where "Q = of_int q"
  have pa: "2 ^ (a - 1) \<le> nat p" "nat p < 2 ^ a"
    using floorlog_bounds [of "nat p" 2] p by (auto simp: a_def)
  have qb: "2 ^ (b - 1) \<le> nat q" "nat q < 2 ^ b"
    using floorlog_bounds [of "nat q" 2] q by (auto simp: b_def)
  have a1: "a \<noteq> 0" using pa(2) p by (cases a) auto
  have b1: "b \<noteq> 0" using qb(2) q by (cases b) auto
  have A2: "A = 2 * 2 ^ (a - 1)" using a1 by (cases a) (simp_all add: A_def)
  have B2: "B = 2 * 2 ^ (b - 1)" using b1 by (cases b) (simp_all add: B_def)
  have "(of_nat (2 ^ (a - 1)) :: rat) \<le> of_nat (nat p)" using pa(1) by (simp only: of_nat_le_iff)
  then have P1: "A \<le> 2 * P" using p by (simp add: A2 P_def)
  have "(of_nat (nat p) :: rat) < of_nat (2 ^ a)" using pa(2) by (simp only: of_nat_less_iff)
  then have P2: "P < A" using p by (simp add: A_def P_def)
  have "(of_nat (2 ^ (b - 1)) :: rat) \<le> of_nat (nat q)" using qb(1) by (simp only: of_nat_le_iff)
  then have Q1: "B \<le> 2 * Q" using q by (simp add: B2 Q_def)
  have "(of_nat (nat q) :: rat) < of_nat (2 ^ b)" using qb(2) by (simp only: of_nat_less_iff)
  then have Q2: "Q < B" using q by (simp add: B_def Q_def)
  have Ppos: "0 < P" and Qpos: "0 < Q" using p q by (simp_all add: P_def Q_def)
  have Apos: "0 < A" and Bpos: "0 < B" by (simp_all add: A_def B_def)
  have xPQ: "x = P / Q" by (simp add: x P_def Q_def)
  define e where "e = int a - int b"
  have pe: "(2::rat) powi e = A / B" by (simp add: e_def p2_diff A_def B_def)
  have pe1: "(2::rat) powi (e + 1) = 2 * A / B" by (simp add: p2_add pe)
  have pem: "(2::rat) powi (e - 1) = A / (2 * B)" by (simp add: p2_diff pe)
  have il: "ilog2 x = (if 2 powi e \<le> x then e else e - 1)"
    by (simp add: ilog2_def pq Let_def e_def a_def b_def)
  have "A * Q \<le> (2 * P) * B"
    by (rule mult_mono) (use P1 Q2 Ppos Qpos in auto)
  then have lo: "A / (2 * B) \<le> x"
    using Qpos Bpos by (simp add: xPQ field_simps)
  have "P * B < A * (2 * Q)"
    by (rule mult_less_le_imp_less) (use P2 Q1 Ppos Bpos in auto)
  then have hi: "x < 2 * A / B"
    using Qpos Bpos by (simp add: xPQ field_simps)
  show "2 powi (ilog2 x) \<le> x"
    using lo by (auto simp: il pem)
  show "x < 2 powi (ilog2 x + 1)"
    using hi by (auto simp: il pe1)
qed

lemma ilog2_unique:
  assumes "0 < x" "2 powi e \<le> x" "x < 2 powi (e + 1)"
  shows "ilog2 x = e"
proof -
  have "(2::rat) powi (ilog2 x) < 2 powi (e + 1)"
    using ilog2_bounds(1) [OF assms(1)] assms(3) by simp
  then have 1: "ilog2 x < e + 1" by (simp only: p2_less_iff)
  have "(2::rat) powi e < 2 powi (ilog2 x + 1)"
    using ilog2_bounds(2) [OF assms(1)] assms(2) by simp
  then have 2: "e < ilog2 x + 1" by (simp only: p2_less_iff)
  from 1 2 show ?thesis by simp
qed


section \<open>Rounding to an integer\<close>

lemma rhe_of_int [simp]: "rhe (of_int k) = k"
  by (simp add: rhe_def)


lemma rhe_near:
  assumes "\<bar>x - of_int k\<bar> < 1 / 2"
  shows "rhe x = k"
proof (cases "of_int k \<le> x")
  case True
  have "\<lfloor>x\<rfloor> = k" by (rule floor_unique) (use True assms in linarith)+
  then show ?thesis using True assms by (simp add: rhe_def Let_def)
next
  case False
  have a: "x - of_int k < 1 / 2" "- (1 / 2) < x - of_int k"
    using assms by linarith+
  have f: "\<lfloor>x\<rfloor> = k - 1" by (rule floor_unique) (use a False in auto)
  have "1 / 2 < x - of_int (k - 1)" using a by simp
  then show ?thesis using f by (simp add: rhe_def Let_def)
qed

lemma rhe_err: "\<bar>of_int (rhe x) - x\<bar> \<le> 1 / 2"
proof -
  have "of_int \<lfloor>x\<rfloor> \<le> x" "x < of_int \<lfloor>x\<rfloor> + 1" by linarith+
  then show ?thesis by (auto simp: rhe_def Let_def)
qed





section \<open>ulp\<close>

lemma ulp_pos [simp]: "0 < ulp x"
  by (simp add: ulp_def)

lemma ulp_nonneg [simp]: "0 \<le> ulp x"
  by (simp add: ulp_def)

lemma ulp_nz [simp]: "ulp x \<noteq> 0"
  by (simp add: ulp_def)




section \<open>The rounded value of a positive rational\<close>






lemma rnd_val_err:
  assumes "0 < x"
  shows "\<bar>rnd_val x - x\<bar> \<le> ulp x / 2"
proof -
  define t where "t = x / ulp x"
  have x: "x = t * ulp x" by (simp add: t_def)
  have "rnd_val x - x = (of_int (rhe t) - t) * ulp x"
    unfolding rnd_val_def t_def [symmetric] by (subst (2) x) (simp add: algebra_simps)
  then have "\<bar>rnd_val x - x\<bar> = \<bar>of_int (rhe t) - t\<bar> * ulp x"
    by (simp add: abs_mult)
  also have "\<dots> \<le> (1 / 2) * ulp x"
    by (rule mult_right_mono) (use rhe_err [of t] in simp_all)
  finally show ?thesis by simp
qed

lemma rnd_val_exact:
  assumes "0 < x" "x = of_int m * 2 powi j" "m \<le> 2 ^ 53" "- 1074 \<le> j"
  shows "rnd_val x = x"
proof -
  define E where "E = max (ilog2 x) (- 1022)"
  define g where "g = E - 52"
  have u: "ulp x = 2 powi g" by (simp add: ulp_def E_def g_def)
  have mpos: "0 < m"
    using zero_less_mult_pos2 [of "of_int m" "(2::rat) powi j"] assms(1, 2) by simp
  have "\<exists>k. x = of_int k * ulp x"
  proof (cases "g \<le> j")
    case True
    have "(2::rat) powi j = 2 powi (j - g) * 2 powi g"
      using p2_add [of "j - g" g] by simp
    also have "(2::rat) powi (j - g) = of_int (2 ^ nat (j - g))"
      using True by (simp add: p2_of_int)
    finally have pj: "(2::rat) powi j = of_int (2 ^ nat (j - g)) * 2 powi g" .
    have "x = of_int m * (of_int (2 ^ nat (j - g)) * 2 powi g)"
      by (simp only: assms(2) pj)
    then have "x = of_int (m * 2 ^ nat (j - g)) * 2 powi g"
      by (simp add: mult.assoc)
    then show ?thesis unfolding u by blast
  next
    case False
    then have gj: "j < g" by simp
    then have "- 1022 < E" using assms(4) by (simp add: g_def)
    then have Ei: "E = ilog2 x" by (simp add: E_def max_def split: if_splits)
    have "x \<le> 2 ^ 53 * 2 powi j"
      unfolding assms(2) by (rule mult_right_mono) (use assms(3) in simp_all)
    also have "\<dots> = 2 powi (53 + j)" by (simp add: p2_add)
    finally have xle: "x \<le> 2 powi (53 + j)" .
    have "2 powi E \<le> x" unfolding Ei by (rule ilog2_bounds(1) [OF assms(1)])
    with xle have "(2::rat) powi E \<le> 2 powi (53 + j)" by simp
    then have "E \<le> 53 + j" by (simp only: p2_le_iff)
    with gj have E53: "E = 53 + j" by (simp add: g_def)
    have "(2::rat) powi E \<le> x" by fact
    with xle have xe: "x = 2 powi E" by (simp add: E53)
    have "(2::rat) powi E = 2 ^ 52 * 2 powi g"
      using p2_add [of 52 g] by (simp add: g_def)
    then have "x = of_int (2 ^ 52) * 2 powi g" using xe by simp
    then show ?thesis unfolding u by blast
  qed
  then obtain k where k: "x = of_int k * ulp x" by blast
  have "x / ulp x = of_int k" by (subst k) simp
  then show ?thesis by (simp add: rnd_val_def k [symmetric])
qed


section \<open>Rounding\<close>

lemma isdoubleI:
  "y = of_int m * 2 powi j \<Longrightarrow> \<bar>m\<bar> \<le> 2 ^ 53 \<Longrightarrow> - 1074 \<le> j \<Longrightarrow> \<bar>y\<bar> < 2 powi 1024
   \<Longrightarrow> isdouble y"
  unfolding isdouble_def by blast



lemma fneg_fneg [simp]: "fneg (fneg a) = a"
  by (cases a; simp add: fneg_def)

lemma fneg_simps [simp]:
  "fneg (Fin r) = Fin (- r)" "fneg PInf = NInf" "fneg NInf = PInf" "fneg NaN = NaN"
  by (simp_all add: fneg_def)


lemma rnd_pos_cases:
  "rnd_pos x = PInf \<and> 2 powi 1024 \<le> rnd_val x \<or>
   rnd_pos x = Fin (rnd_val x) \<and> rnd_val x < 2 powi 1024"
  by (simp add: rnd_pos_def Let_def not_le)



lemma rnd_0 [simp]: "rnd 0 = Fin 0"
  by (simp add: rnd_def)


lemma rnd_not_NaN [simp]: "rnd x \<noteq> NaN"
  using rnd_pos_cases [of x] rnd_pos_cases [of "- x"] by (auto simp: rnd_def)



lemma rnd_exact:
  assumes "isdouble y"
  shows "rnd y = Fin y"
proof -
  obtain m j where y: "y = of_int m * 2 powi j" and m: "\<bar>m\<bar> \<le> 2 ^ 53" and j: "- 1074 \<le> j"
    and b: "\<bar>y\<bar> < 2 powi 1024" using assms by (auto simp: isdouble_def)
  consider "y = 0" | "0 < y" | "y < 0" by linarith
  then show ?thesis
  proof cases
    case 1
    then show ?thesis by simp
  next
    case 2
    have "rnd_val y = y" by (rule rnd_val_exact [OF 2 y _ j]) (use m in simp)
    then show ?thesis using 2 b by (simp add: rnd_def rnd_pos_def)
  next
    case 3
    have y': "- y = of_int (- m) * 2 powi j" by (simp add: y)
    have "rnd_val (- y) = - y" by (rule rnd_val_exact [OF _ y' _ j]) (use 3 m in simp_all)
    then show ?thesis using 3 b by (simp add: rnd_def rnd_pos_def)
  qed
qed





lemma isdouble_of_int:
  assumes k: "\<bar>k\<bar> \<le> 2 ^ 53"
  shows "isdouble (of_int k)"
proof (rule isdoubleI [where m = k and j = 0])
  have "\<bar>of_int k :: rat\<bar> = of_int \<bar>k\<bar>" by simp
  also have "\<dots> \<le> of_int (2 ^ 53)" using k by (simp only: of_int_le_iff)
  also have "\<dots> < 2 powi 1024" by simp
  finally show "\<bar>of_int k :: rat\<bar> < 2 powi 1024" .
qed (use k in simp_all)


lemma isdouble_numeral [simp]: "numeral n \<le> (9007199254740992 :: int) \<Longrightarrow> isdouble (numeral n)"
  using isdouble_of_int [of "numeral n"] by simp

lemma isdouble_1 [simp]: "isdouble 1"
  using isdouble_of_int [of 1] by simp

lemma rnd_numeral [simp]: "numeral n \<le> (9007199254740992 :: int) \<Longrightarrow> rnd (numeral n) = Fin (numeral n)"
  by (rule rnd_exact) simp

lemma rnd_1 [simp]: "rnd 1 = Fin 1"
  by (rule rnd_exact) simp

lemma rnd_err:
  assumes "0 < x" "x < 2 powi (e + 1)" "- 1022 \<le> e" "rnd x = Fin y"
  shows "\<bar>y - x\<bar> \<le> 2 powi (e - 53)"
proof -
  have y: "y = rnd_val x" using assms(1, 4) rnd_pos_cases [of x] by (auto simp: rnd_def)
  have "(2::rat) powi (ilog2 x) < 2 powi (e + 1)"
    using ilog2_bounds(1) [OF assms(1)] assms(2) by simp
  then have "ilog2 x \<le> e" by (simp add: p2_less_iff)
  then have "max (ilog2 x) (- 1022) - 52 \<le> e - 52" using assms(3) by simp
  then have u: "ulp x \<le> 2 powi (e - 52)" unfolding ulp_def by (simp only: p2_le_iff)
  have "(2::rat) powi (e - 52) = 2 powi 1 * 2 powi (e - 53)"
    using p2_add [of 1 "e - 53"] by simp
  then have "ulp x / 2 \<le> 2 powi (e - 53)" using u by simp
  then show ?thesis using rnd_val_err [OF assms(1)] by (simp add: y)
qed

section \<open>Nearest and tie cases\<close>

lemma rnd_Fin:
  assumes "0 < x" "rnd_val x < 2 powi 1024"
  shows "rnd x = Fin (rnd_val x)"
  using assms by (simp add: rnd_def rnd_pos_def)

lemma ulp_binade:
  assumes "0 < x" "2 powi e \<le> x" "x < 2 powi (e + 1)" "- 1022 \<le> e"
  shows "ulp x = 2 powi (e - 52)"
proof -
  have "ilog2 x = e" by (rule ilog2_unique) fact+
  then show ?thesis using assms(4) by (simp add: ulp_def max_def)
qed

lemma p2_half: "(2::rat) powi (e - 53) = 2 powi (e - 52) / 2"
  using p2_add [of 1 "e - 53"] by simp

lemma rnd_val_near:
  assumes "0 < x" "2 powi e \<le> x" "x < 2 powi (e + 1)" "- 1022 \<le> e"
    and "\<bar>x - of_int m * 2 powi (e - 52)\<bar> < 2 powi (e - 53)"
  shows "rnd_val x = of_int m * 2 powi (e - 52)"
proof -
  define U :: rat where "U = 2 powi (e - 52)"
  have Upos: "0 < U" by (simp add: U_def)
  have u: "ulp x = U" unfolding U_def by (rule ulp_binade) fact+
  have "x / U - of_int m = (x - of_int m * U) / U" using Upos by (simp add: field_simps)
  then have "\<bar>x / U - of_int m\<bar> = \<bar>x - of_int m * U\<bar> / U" using Upos by (simp add: abs_divide)
  also have "\<dots> < (U / 2) / U"
    using assms(5) Upos unfolding p2_half U_def [symmetric] by (simp add: divide_strict_right_mono)
  also have "\<dots> = 1 / 2" using Upos by simp
  finally have "rhe (x / U) = m" by (rule rhe_near)
  then show ?thesis by (simp add: rnd_val_def u U_def)
qed



section \<open>The maximum constant\<close>

lemma maxUint256_value: "BigInt_of_string maxUint256_literal = Inr (2 ^ 256 - 1)"
  by (simp add: BigInt_of_string_def maxUint256_literal_def trim_def is_ws_def parse_nat_def
      digit_val_def Let_def)

lemma rnd_max: "rnd (2 ^ 256 - 1) = Fin (2 ^ 256)"
proof -
  have "rnd_val (2 ^ 256 - 1) = of_int (2 ^ 53) * 2 powi (255 - 52)"
    by (rule rnd_val_near) simp_all
  then have v: "rnd_val (2 ^ 256 - 1) = 2 ^ 256" by simp
  have "rnd (2 ^ 256 - 1) = Fin (rnd_val (2 ^ 256 - 1))"
    by (rule rnd_Fin) (unfold v, simp_all)
  then show ?thesis by (simp only: v)
qed




section \<open>Bytes\<close>

lemma be_bytes_0 [simp]: "be_bytes 0 = []"
  by (subst be_bytes.simps) simp


lemma length_be_enc [simp]: "length (be_enc k n) = k"
  by (induction k arbitrary: n) simp_all







lemma pad32_neg: "v < 0 \<Longrightarrow> pad32 v = Inl NumericFault"
  by (simp add: pad32_def toBeHex_def bindE_def)

section \<open>Digests as numbers, and the indexed draw\<close>



lemma Number_max: "Number_of_BigInt (2 ^ 256 - 1) = Fin (2 ^ 256)"
  using rnd_max by (simp add: Number_of_BigInt_def)

lemma BigInt_of_int [simp]: "BigInt_of_Number (Fin (of_int n)) = Inr n"
  by (simp add: BigInt_of_Number_def)


chapter \<open>The claims\<close>

section \<open>Seed derivation\<close>



section \<open>The indexed draw and its denominator\<close>




text \<open>
  Claim C5 (amended). The constant that \<open>getRandom\<close> divides by is written with 64
  hexadecimal digits \<open>f\<close>: it is exactly \<open>2\<^sup>2\<^sup>5\<^sup>6 - 1\<close>, the largest 256-bit number, on 32 bytes.
  Only its conversion to a double is larger, by one: \<open>Number\<close> rounds it to \<open>2\<^sup>2\<^sup>5\<^sup>6\<close>.
\<close>

theorem maxUint256_exact:
  "BigInt_of_string maxUint256_literal = Inr (2 ^ 256 - 1)
   \<and> length maxUint256_literal = 2 + 64
   \<and> Number_of_BigInt (2 ^ 256 - 1) = Fin (2 ^ 256)"
  using maxUint256_value Number_max by (simp add: maxUint256_literal_def)

text \<open>
  The claim as stated: no value above \<open>2\<^sup>2\<^sup>5\<^sup>6 - 1\<close> is denoted by the literal, and in
  particular not the 33-byte value \<open>2\<^sup>2\<^sup>6\<^sup>4 - 1\<close>.
\<close>

theorem maxUint256_not_larger_counterexample:
  "\<not> (\<exists>v. BigInt_of_string maxUint256_literal = Inr v \<and> 2 ^ 256 - 1 < v)
   \<and> BigInt_of_string maxUint256_literal \<noteq> Inr (2 ^ 264 - 1)"
  by (simp add: maxUint256_value)

section \<open>Commit and reveal\<close>

text \<open>
  Claim C7. For a round whose status is \<open>RandomReady\<close>, \<open>revealServerSeed\<close> succeeds if and
  only if the hash of the revealed seed equals the committed \<open>serverSeedHash\<close>; a different
  hash reverts with the reason of the mismatch; and on success the seed is stored in the
  round, the status of the round is \<open>SeedRevealed\<close> and the commitment is unchanged.
\<close>

theorem revealServerSeed_commitment:
  assumes "status (rounds c rid) = RandomReady"
  shows "((\<exists>c'. revealServerSeed hash c rid seed = Inr c') \<longleftrightarrow>
            hash seed = serverSeedHash (rounds c rid))
       \<and> (hash seed \<noteq> serverSeedHash (rounds c rid) \<longrightarrow>
            revealServerSeed hash c rid seed = Inl (Revert ''Server seed hash mismatch''))
       \<and> (\<forall>c'. revealServerSeed hash c rid seed = Inr c' \<longrightarrow>
            serverSeed' (rounds c' rid) = seed \<and> status (rounds c' rid) = SeedRevealed
            \<and> serverSeedHash (rounds c' rid) = serverSeedHash (rounds c rid))"
proof (cases "hash seed = serverSeedHash (rounds c rid)")
  case True
  have "revealServerSeed hash c rid seed =
          Inr (c\<lparr>rounds := (rounds c)
                   (rid := (rounds c rid)\<lparr>serverSeed' := seed, status := SeedRevealed\<rparr>),
                 events := events c @ [ServerSeedRevealed rid seed]\<rparr>)"
    using assms True by (simp add: revealServerSeed_def Let_def)
  then show ?thesis using True by simp
next
  case False
  have "revealServerSeed hash c rid seed = Inl (Revert ''Server seed hash mismatch'')"
    using assms False by (simp add: revealServerSeed_def Let_def)
  then show ?thesis using False by simp
qed

theorem revealServerSeed_commitment_witness:
  "(\<exists>c'. revealServerSeed zero_digest sample_contract 1 [1, 2] = Inr c'
        \<and> serverSeed' (rounds c' 1) = [1, 2] \<and> status (rounds c' 1) = SeedRevealed)
   \<and> revealServerSeed ones_digest sample_contract 1 [1, 2] =
        Inl (Revert ''Server seed hash mismatch'')"
proof -
  have s: "status (rounds sample_contract 1) = RandomReady"
    by (simp add: sample_contract_def)
  note A = revealServerSeed_commitment [OF s, of zero_digest "[1, 2]"]
  note B = revealServerSeed_commitment [OF s, of ones_digest "[1, 2]"]
  have z: "zero_digest [1, 2] = serverSeedHash (rounds sample_contract 1)"
    by (simp add: sample_contract_def zero_digest_def)
  have o: "ones_digest [1, 2] \<noteq> serverSeedHash (rounds sample_contract 1)"
    by (simp add: sample_contract_def ones_digest_def)
  from A z obtain c' where c': "revealServerSeed zero_digest sample_contract 1 [1, 2] = Inr c'"
    by blast
  with A have "serverSeed' (rounds c' 1) = [1, 2] \<and> status (rounds c' 1) = SeedRevealed"
    by blast
  moreover from B o have
    "revealServerSeed ones_digest sample_contract 1 [1, 2] = Inl (Revert ''Server seed hash mismatch'')"
    by blast
  ultimately show ?thesis using c' by blast
qed

end
